theory Spec2Isabelle
  imports Main "HOL-Library.AList"
begin

section \<open>Values that cross the connection\<close>

text \<open>
  The connection of \<^verbatim>\<open>RadixNodeConnection.ts\<close> hands JavaScript values to streams,
  promises and the transport. Errors are values of any type there: the strings the
  connection builds itself (\<^verbatim>\<open>'Socket closed'\<close>, \<^verbatim>\<open>'Socket timeout'\<close>, \<^verbatim>\<open>'Timeout'\<close>,
  \<^verbatim>\<open>value + ': ' + message\<close>), whatever the transport rejects a call with, and the two
  exceptions the runtime and the stream library raise.
\<close>

datatype js_error =
    Null                       \<comment> \<open>the value \<^verbatim>\<open>null\<close>: no error\<close>
  | TypeError                  \<comment> \<open>a property read or a method call on \<^verbatim>\<open>undefined\<close>\<close>
  | ObjectUnsubscribedError    \<comment> \<open>a method call on a stream its holder has unsubscribed\<close>
  | ErrorValue string          \<comment> \<open>any other error value, by its text\<close>

datatype 'v notification = Next 'v | Error js_error | Complete

section \<open>The streams: Subject and BehaviorSubject\<close>

text \<open>
  The program imports \<^verbatim>\<open>Subject\<close> and \<^verbatim>\<open>BehaviorSubject\<close> from \<^verbatim>\<open>rxjs/Rx\<close>. A subject
  keeps the flags \<^verbatim>\<open>closed\<close>, \<^verbatim>\<open>isStopped\<close>, \<^verbatim>\<open>hasError\<close>, the value \<^verbatim>\<open>thrownError\<close> and
  the list of its observers. Observers are passive here: an observer is a number, and
  every callback the subject makes is returned as a pair of the observer and the
  notification it was called with.

  \<^item> \<^verbatim>\<open>next(v)\<close> throws when \<^verbatim>\<open>closed\<close>; otherwise it calls every observer unless
    \<^verbatim>\<open>isStopped\<close>.
  \<^item> \<^verbatim>\<open>error(e)\<close> throws when \<^verbatim>\<open>closed\<close>; otherwise it sets \<^verbatim>\<open>hasError\<close>, \<^verbatim>\<open>thrownError\<close>
    and \<^verbatim>\<open>isStopped\<close>, calls every observer and empties the list. It does not look
    at \<^verbatim>\<open>isStopped\<close> first.
  \<^item> \<^verbatim>\<open>complete()\<close> throws when \<^verbatim>\<open>closed\<close>; otherwise it sets \<^verbatim>\<open>isStopped\<close>, calls
    every observer and empties the list.
  \<^item> \<^verbatim>\<open>unsubscribe()\<close> sets \<^verbatim>\<open>isStopped\<close> and \<^verbatim>\<open>closed\<close> and drops the observers. It is
    the only place that sets \<^verbatim>\<open>closed\<close>.
  \<^item> \<^verbatim>\<open>subscribe(observer)\<close> throws when \<^verbatim>\<open>closed\<close>, hands the observer the stored
    error when \<^verbatim>\<open>hasError\<close>, completes it when \<^verbatim>\<open>isStopped\<close>, and registers it
    otherwise. A \<^verbatim>\<open>BehaviorSubject\<close> then hands a registered observer its current
    value, and its \<^verbatim>\<open>next(v)\<close> stores \<^verbatim>\<open>v\<close> before it forwards it. (Where that \<^verbatim>\<open>next\<close>
    throws, the value stored is left out: a closed subject shows its value to nobody.)
\<close>

record 'v Subject =
  closed :: bool
  isStopped :: bool
  hasError :: bool
  thrownError :: js_error
  observers :: "nat list"

record 'v BehaviorSubject = "'v Subject" +
  current :: 'v    \<comment> \<open>the field \<^verbatim>\<open>_value\<close>\<close>

type_synonym 'v deliveries = "(nat \<times> 'v notification) list"

definition new_Subject :: "'v Subject" where
  "new_Subject =
     \<lparr>closed = False, isStopped = False, hasError = False, thrownError = Null, observers = []\<rparr>"

definition new_BehaviorSubject :: "'v \<Rightarrow> 'v BehaviorSubject" where
  "new_BehaviorSubject v =
     \<lparr>closed = False, isStopped = False, hasError = False, thrownError = Null, observers = [],
      current = v\<rparr>"

definition deliver :: "'v notification \<Rightarrow> nat list \<Rightarrow> 'v deliveries" where
  "deliver n obs = map (\<lambda>ob. (ob, n)) obs"

definition Subject_next ::
  "'v \<Rightarrow> ('v, 'm) Subject_scheme \<Rightarrow> js_error + (('v, 'm) Subject_scheme \<times> 'v deliveries)" where
  "Subject_next v sb =
     (if closed sb then Inl ObjectUnsubscribedError
      else if \<not> isStopped sb then Inr (sb, deliver (Next v) (observers sb))
      else Inr (sb, []))"

definition Subject_error ::
  "js_error \<Rightarrow> ('v, 'm) Subject_scheme \<Rightarrow> js_error + (('v, 'm) Subject_scheme \<times> 'v deliveries)" where
  "Subject_error e sb =
     (if closed sb then Inl ObjectUnsubscribedError
      else Inr (sb\<lparr>hasError := True, thrownError := e, isStopped := True, observers := []\<rparr>,
                deliver (Error e) (observers sb)))"

definition Subject_complete ::
  "('v, 'm) Subject_scheme \<Rightarrow> js_error + (('v, 'm) Subject_scheme \<times> 'v deliveries)" where
  "Subject_complete sb =
     (if closed sb then Inl ObjectUnsubscribedError
      else Inr (sb\<lparr>isStopped := True, observers := []\<rparr>, deliver Complete (observers sb)))"

definition Subject_unsubscribe ::
  "('v, 'm) Subject_scheme \<Rightarrow> js_error + (('v, 'm) Subject_scheme \<times> 'v deliveries)" where
  "Subject_unsubscribe sb = Inr (sb\<lparr>isStopped := True, closed := True, observers := []\<rparr>, [])"

definition Subject_subscribe ::
  "nat \<Rightarrow> ('v, 'm) Subject_scheme \<Rightarrow> js_error + (('v, 'm) Subject_scheme \<times> 'v deliveries)" where
  "Subject_subscribe ob sb =
     (if closed sb then Inl ObjectUnsubscribedError
      else if hasError sb then Inr (sb, [(ob, Error (thrownError sb))])
      else if isStopped sb then Inr (sb, [(ob, Complete)])
      else Inr (sb\<lparr>observers := observers sb @ [ob]\<rparr>, []))"

definition BehaviorSubject_next ::
  "'v \<Rightarrow> 'v BehaviorSubject \<Rightarrow> js_error + ('v BehaviorSubject \<times> 'v deliveries)" where
  "BehaviorSubject_next v sb = Subject_next v (sb\<lparr>current := v\<rparr>)"

definition BehaviorSubject_subscribe ::
  "nat \<Rightarrow> 'v BehaviorSubject \<Rightarrow> js_error + ('v BehaviorSubject \<times> 'v deliveries)" where
  "BehaviorSubject_subscribe ob sb =
     (if closed sb \<or> hasError sb \<or> isStopped sb then Subject_subscribe ob sb
      else Inr (sb\<lparr>observers := observers sb @ [ob]\<rparr>, [(ob, Next (current sb))]))"

section \<open>The data of the connection\<close>

text \<open>
  Atoms are kept abstract: \<open>'a\<close> is a deserialized \<^verbatim>\<open>RadixAtom\<close>, \<open>'w\<close> a value in wire
  (JSON) form. The serializer and the identifier type are not part of the connection; what
  the connection calls of them is taken as parameters: \<^verbatim>\<open>atom.toJSON()\<close>,
  \<^verbatim>\<open>RadixSerializer.fromJSON\<close>, which may throw, and the two expressions of the loop that
  compares identifiers (see \<open>checkHIDs\<close>). A response of the node is \<open>None\<close> for
  \<^verbatim>\<open>undefined\<close> and \<open>Some r\<close> for an object whose field \<^verbatim>\<open>result\<close> is \<open>r\<close>. Subscriber
  identifiers are numbers (the source writes them in decimal to use them as keys), and a
  table of the connection is an association list in the order in which its keys are
  enumerated.
\<close>

record 'a RadixAtomUpdate =
  action :: string
  atom :: 'a
  processedData :: "(string \<times> string) list"

record Notification =
  subscriberId :: nat

record 'w AtomReceivedNotification = Notification +
  atoms :: "'w list"
  isHead :: bool

record AtomSubmissionStateUpdateNotification = Notification +
  state_value :: string             \<comment> \<open>the field \<^verbatim>\<open>value\<close>\<close>
  message :: "string option"        \<comment> \<open>the optional field \<^verbatim>\<open>message\<close>\<close>

text \<open>
  What the outside can see of a run is recorded in order: every callback made on an
  observer of one of the connection's streams, every call on the transport, and every event
  the connection emits.
\<close>

datatype channel =
    Subscription nat     \<comment> \<open>\<^verbatim>\<open>_subscriptions[subscriberId]\<close>\<close>
  | Synced nat           \<comment> \<open>\<^verbatim>\<open>_syncedSubscriptions[subscriberId]\<close>\<close>
  | AtomState nat        \<comment> \<open>\<^verbatim>\<open>_atomUpdateSubjects[subscriberId]\<close>\<close>

datatype 'a payload = AtomUpdate "'a RadixAtomUpdate" | StateValue string | SyncValue bool

datatype 'w request =
    Network_getInfo
  | Atoms_subscribe nat string
  | Atoms_cancel "nat option"
  | Universe_submitAtomAndSubscribe nat 'w
  | Atoms_getAtomInfo 'w

datatype ('a, 'w) effect =
    Notified channel nat "'a payload notification"
  | Called nat "'w request"
  | SocketClose
  | Emitted string

text \<open>
  A promise is pending until it is settled, once. A promise made by \<^verbatim>\<open>Promise.all\<close> is kept
  as the list of its members and the first rejection among them, if there has been one. The
  continuations of a pending call are the closures the source passes to \<^verbatim>\<open>then\<close> and
  \<^verbatim>\<open>catch\<close>, by the variables they capture. A timer carries its delay in milliseconds and the
  closure it runs.
\<close>

datatype ('a, 'w) pvalue = PResponse "'w option" | PValues "('a, 'w) pvalue list" | PAtom 'a

datatype ('a, 'w) outcome = Pending | Resolved "('a, 'w) pvalue" | Rejected js_error

datatype ('a, 'w) promise = Single "('a, 'w) outcome" | Join "nat list" "js_error option"

datatype continuation =
    K_ping
  | K_subscribe string nat
  | K_unsubscribe string "nat option" nat
  | K_submitAtom nat nat
  | K_getAtomById nat

datatype timer_kind = Timeout | Interval

datatype timer_task = OpenTimeout nat | SubmitTimeout nat | Ping

record timer =
  kind :: timer_kind
  delay :: nat
  task :: timer_task

record socket_state =
  ready :: bool
  listening :: bool      \<comment> \<open>the two notification handlers are registered\<close>
  openPromise :: nat     \<comment> \<open>the promise whose \<^verbatim>\<open>resolve\<close> and \<^verbatim>\<open>reject\<close> the handlers captured\<close>

record ('a, 'w) connection =
  socket :: "socket_state option"
  pingInterval :: "nat option"
  subscriptions :: "(nat \<times> 'a RadixAtomUpdate Subject) list"
  atomUpdateSubjects :: "(nat \<times> string BehaviorSubject) list"
  addressSubscriptions :: "(string \<times> nat) list"
  syncedSubscriptions :: "(nat \<times> bool BehaviorSubject) list"
  lastSubscriberId :: nat
  address :: string
  timers :: "(nat \<times> timer) list"
  calls :: "(nat \<times> continuation) list"
  promises :: "(nat \<times> ('a, 'w) promise) list"
  nextId :: nat
  trace :: "('a, 'w) effect list"

definition new_connection :: "('a, 'w) connection" where
  "new_connection =
     \<lparr>socket = None, pingInterval = None, subscriptions = [], atomUpdateSubjects = [],
      addressSubscriptions = [], syncedSubscriptions = [], lastSubscriberId = 1, address = [],
      timers = [], calls = [], promises = [], nextId = 0, trace = []\<rparr>"

text \<open>
  A function of the connection returns \<open>Inr\<close> with the state it leaves, or \<open>Inl\<close> with the
  exception it throws and the state at the throw: what it did before the throw stays done.
\<close>

type_synonym ('a, 'w) outcome_state = "(js_error \<times> ('a, 'w) connection) + ('a, 'w) connection"

definition and_then ::
  "('a, 'w) outcome_state \<Rightarrow> (('a, 'w) connection \<Rightarrow> ('a, 'w) outcome_state) \<Rightarrow> ('a, 'w) outcome_state" where
  "and_then r f = (case r of Inl e \<Rightarrow> Inl e | Inr s \<Rightarrow> f s)"

definition notified ::
  "channel \<Rightarrow> ('v \<Rightarrow> 'a payload) \<Rightarrow> 'v deliveries \<Rightarrow> ('a, 'w) effect list" where
  "notified ch tag ds = map (\<lambda>(ob, n). Notified ch ob (map_notification tag n)) ds"

definition on_subscription ::
  "nat \<Rightarrow> ('a RadixAtomUpdate Subject \<Rightarrow> js_error + ('a RadixAtomUpdate Subject \<times> 'a RadixAtomUpdate deliveries))
     \<Rightarrow> ('a, 'w) connection \<Rightarrow> ('a, 'w) outcome_state" where
  "on_subscription sid f s =
     (case map_of (subscriptions s) sid of
        None \<Rightarrow> Inl (TypeError, s)
      | Some sb \<Rightarrow>
          (case f sb of
             Inl e \<Rightarrow> Inl (e, s)
           | Inr (sb', ds) \<Rightarrow>
               Inr (s\<lparr>subscriptions := AList.update sid sb' (subscriptions s),
                       trace := trace s @ notified (Subscription sid) AtomUpdate ds\<rparr>)))"

definition on_syncedSubscription ::
  "nat \<Rightarrow> (bool BehaviorSubject \<Rightarrow> js_error + (bool BehaviorSubject \<times> bool deliveries))
     \<Rightarrow> ('a, 'w) connection \<Rightarrow> ('a, 'w) outcome_state" where
  "on_syncedSubscription sid f s =
     (case map_of (syncedSubscriptions s) sid of
        None \<Rightarrow> Inl (TypeError, s)
      | Some sb \<Rightarrow>
          (case f sb of
             Inl e \<Rightarrow> Inl (e, s)
           | Inr (sb', ds) \<Rightarrow>
               Inr (s\<lparr>syncedSubscriptions := AList.update sid sb' (syncedSubscriptions s),
                       trace := trace s @ notified (Synced sid) SyncValue ds\<rparr>)))"

definition on_atomUpdateSubject ::
  "nat \<Rightarrow> (string BehaviorSubject \<Rightarrow> js_error + (string BehaviorSubject \<times> string deliveries))
     \<Rightarrow> ('a, 'w) connection \<Rightarrow> ('a, 'w) outcome_state" where
  "on_atomUpdateSubject sid f s =
     (case map_of (atomUpdateSubjects s) sid of
        None \<Rightarrow> Inl (TypeError, s)
      | Some sb \<Rightarrow>
          (case f sb of
             Inl e \<Rightarrow> Inl (e, s)
           | Inr (sb', ds) \<Rightarrow>
               Inr (s\<lparr>atomUpdateSubjects := AList.update sid sb' (atomUpdateSubjects s),
                       trace := trace s @ notified (AtomState sid) StateValue ds\<rparr>)))"

section \<open>Promises, timers and calls\<close>

text \<open>
  The JavaScript runtime is part of the state: the promises handed out, the timers armed by
  \<^verbatim>\<open>setTimeout\<close> and \<^verbatim>\<open>setInterval\<close>, and the calls on the transport that wait for their
  reply. Settling a settled promise does nothing. \<^verbatim>\<open>Promise.all\<close> over members rejects with the
  first rejection among them as soon as it happens, and resolves with the list of their values
  once every member is resolved. In \<^verbatim>\<open>unsubscribeAll\<close> the promise returned follows the one of
  \<^verbatim>\<open>Promise.all\<close> in both outcomes, so the two are one promise here.
\<close>

definition new_promise :: "('a, 'w) connection \<Rightarrow> nat \<times> ('a, 'w) connection" where
  "new_promise s =
     (nextId s,
      s\<lparr>promises := AList.update (nextId s) (Single Pending) (promises s),
        nextId := Suc (nextId s)\<rparr>)"

fun all_values :: "(nat \<times> ('a, 'w) promise) list \<Rightarrow> nat list \<Rightarrow> ('a, 'w) pvalue list option" where
  "all_values ps [] = Some []"
| "all_values ps (m # ms) =
     (case map_of ps m of
        Some (Single (Resolved v)) \<Rightarrow>
          (case all_values ps ms of Some vs \<Rightarrow> Some (v # vs) | None \<Rightarrow> None)
      | _ \<Rightarrow> None)"


definition outcome_of :: "(nat \<times> ('a, 'w) promise) list \<Rightarrow> nat \<Rightarrow> ('a, 'w) outcome option" where
  "outcome_of ps q =
     (case map_of ps q of
        None \<Rightarrow> None
      | Some (Single out) \<Rightarrow> Some out
      | Some (Join ms (Some e)) \<Rightarrow> Some (Rejected e)
      | Some (Join ms None) \<Rightarrow>
          (case all_values ps ms of
             Some vs \<Rightarrow> Some (Resolved (PValues vs))
           | None \<Rightarrow> Some Pending))"

definition note_rejection ::
  "nat \<Rightarrow> js_error \<Rightarrow> nat \<times> ('a, 'w) promise \<Rightarrow> nat \<times> ('a, 'w) promise" where
  "note_rejection p e qp =
     (case qp of
        (q, Join ms None) \<Rightarrow> if p \<in> set ms then (q, Join ms (Some e)) else qp
      | _ \<Rightarrow> qp)"

definition settle :: "nat \<Rightarrow> ('a, 'w) outcome \<Rightarrow> ('a, 'w) connection \<Rightarrow> ('a, 'w) connection" where
  "settle p out s =
     (if map_of (promises s) p = Some (Single Pending) then
        (let ps = AList.update p (Single out) (promises s) in
         s\<lparr>promises := (case out of Rejected e \<Rightarrow> map (note_rejection p e) ps | _ \<Rightarrow> ps)\<rparr>)
      else s)"


definition set_timer :: "timer \<Rightarrow> ('a, 'w) connection \<Rightarrow> nat \<times> ('a, 'w) connection" where
  "set_timer t s =
     (nextId s, s\<lparr>timers := AList.update (nextId s) t (timers s), nextId := Suc (nextId s)\<rparr>)"

definition clear_timer :: "nat \<Rightarrow> ('a, 'w) connection \<Rightarrow> ('a, 'w) connection" where
  "clear_timer tid s = s\<lparr>timers := AList.delete tid (timers s)\<rparr>"

definition issue :: "'w request \<Rightarrow> continuation \<Rightarrow> ('a, 'w) connection \<Rightarrow> ('a, 'w) connection" where
  "issue rq k s =
     s\<lparr>calls := AList.update (nextId s) k (calls s),
       trace := trace s @ [Called (nextId s) rq],
       nextId := Suc (nextId s)\<rparr>"

section \<open>The operations of RadixNodeConnection\<close>

definition getSubscriberId :: "('a, 'w) connection \<Rightarrow> nat \<times> ('a, 'w) connection" where
  "getSubscriberId s = (Suc (lastSubscriberId s), s\<lparr>lastSubscriberId := Suc (lastSubscriberId s)\<rparr>)"

definition isReady :: "('a, 'w) connection \<Rightarrow> bool" where
  "isReady s = (case socket s of None \<Rightarrow> False | Some so \<Rightarrow> ready so)"

text \<open>
  \<^verbatim>\<open>openConnection\<close> creates the transport, arms a timer of 5000 ms and returns its promise.
  The number returned by \<^verbatim>\<open>setTimeout\<close> is not kept by the source.
\<close>

definition openConnection :: "string \<Rightarrow> ('a, 'w) connection \<Rightarrow> nat \<times> ('a, 'w) connection" where
  "openConnection rpcAddress s =
     (let (p, s1) = new_promise s;
          s2 = s1\<lparr>address := rpcAddress,
                  socket := Some \<lparr>ready = False, listening = False, openPromise = p\<rparr>\<rparr>;
          (tid, s3) = set_timer \<lparr>kind = Timeout, delay = 5000, task = OpenTimeout p\<rparr> s2
      in (p, s3))"

definition subscribe ::
  "string \<Rightarrow> ('a, 'w) connection \<Rightarrow> (js_error \<times> ('a, 'w) connection) + (nat \<times> ('a, 'w) connection)" where
  "subscribe addr s =
     (let (sid, s1) = getSubscriberId s;
          s2 = s1\<lparr>addressSubscriptions := AList.update addr sid (addressSubscriptions s1),
                  subscriptions := AList.update sid new_Subject (subscriptions s1),
                  syncedSubscriptions :=
                    AList.update sid (new_BehaviorSubject False) (syncedSubscriptions s1)\<rparr>
      in case socket s2 of
           None \<Rightarrow> Inl (TypeError, s2)
         | Some so \<Rightarrow> Inr (sid, issue (Atoms_subscribe sid addr) (K_subscribe addr sid) s2))"

definition unsubscribe :: "string \<Rightarrow> ('a, 'w) connection \<Rightarrow> nat \<times> ('a, 'w) connection" where
  "unsubscribe addr s =
     (let sid = map_of (addressSubscriptions s) addr;
          (p, s1) = new_promise s
      in case socket s1 of
           None \<Rightarrow> (p, settle p (Rejected TypeError) s1)
         | Some so \<Rightarrow> (p, issue (Atoms_cancel sid) (K_unsubscribe addr sid p) s1))"

definition isSynced :: "string \<Rightarrow> ('a, 'w) connection \<Rightarrow> channel option" where
  "isSynced addr s =
     (case map_of (addressSubscriptions s) addr of
        None \<Rightarrow> None
      | Some sid \<Rightarrow> (case map_of (syncedSubscriptions s) sid of None \<Rightarrow> None | Some sb \<Rightarrow> Some (Synced sid)))"



definition submitAtom ::
  "('a \<Rightarrow> 'w) \<Rightarrow> 'a \<Rightarrow> ('a, 'w) connection
     \<Rightarrow> (js_error \<times> ('a, 'w) connection) + (nat \<times> ('a, 'w) connection)" where
  "submitAtom toJSON a s =
     (let (sid, s1) = getSubscriberId s;
          s2 = s1\<lparr>atomUpdateSubjects :=
                    AList.update sid (new_BehaviorSubject ''CREATED'') (atomUpdateSubjects s1)\<rparr>;
          (tid, s3) = set_timer \<lparr>kind = Timeout, delay = 5000, task = SubmitTimeout sid\<rparr> s2
      in case socket s3 of
           None \<Rightarrow> Inl (TypeError, s3)
         | Some so \<Rightarrow>
             Inr (sid, issue (Universe_submitAtomAndSubscribe sid (toJSON a)) (K_submitAtom sid tid) s3))"

text \<open>\<^verbatim>\<open>getAtomById\<close> takes the identifier in its wire form, the result of \<^verbatim>\<open>id.toJSON()\<close>.\<close>

definition getAtomById :: "'w \<Rightarrow> ('a, 'w) connection \<Rightarrow> nat \<times> ('a, 'w) connection" where
  "getAtomById ident s =
     (let (p, s1) = new_promise s
      in case socket s1 of
           None \<Rightarrow> (p, settle p (Rejected TypeError) s1)
         | Some so \<Rightarrow> (p, issue (Atoms_getAtomInfo ident) (K_getAtomById p) s1))"

definition close :: "('a, 'w) connection \<Rightarrow> ('a, 'w) outcome_state" where
  "close s =
     (case socket s of
        None \<Rightarrow> Inl (TypeError, s)
      | Some so \<Rightarrow> Inr (s\<lparr>trace := trace s @ [SocketClose]\<rparr>))"

section \<open>The handlers\<close>

text \<open>
  \<^verbatim>\<open>_onClosed\<close>: both loops guard \<^verbatim>\<open>error('Socket closed')\<close> with the flag \<^verbatim>\<open>closed\<close> of the
  stream. The sync-status streams are not visited.
\<close>

definition clearInterval :: "nat option \<Rightarrow> ('a, 'w) connection \<Rightarrow> ('a, 'w) connection" where
  "clearInterval t s = (case t of None \<Rightarrow> s | Some tid \<Rightarrow> clear_timer tid s)"

definition close_subscription :: "nat \<Rightarrow> ('a, 'w) connection \<Rightarrow> ('a, 'w) outcome_state" where
  "close_subscription sid s =
     (case map_of (subscriptions s) sid of
        None \<Rightarrow> Inr s
      | Some sb \<Rightarrow>
          if \<not> closed sb
          then on_subscription sid (Subject_error (ErrorValue ''Socket closed'')) s
          else Inr s)"

definition close_atomUpdateSubject :: "nat \<Rightarrow> ('a, 'w) connection \<Rightarrow> ('a, 'w) outcome_state" where
  "close_atomUpdateSubject sid s =
     (case map_of (atomUpdateSubjects s) sid of
        None \<Rightarrow> Inr s
      | Some sb \<Rightarrow>
          if \<not> closed sb
          then on_atomUpdateSubject sid (Subject_error (ErrorValue ''Socket closed'')) s
          else Inr s)"

definition onClosed :: "('a, 'w) connection \<Rightarrow> ('a, 'w) outcome_state" where
  "onClosed s =
     (let s1 = clearInterval (pingInterval s) s in
      and_then
        (fold (\<lambda>sid r. and_then r (close_subscription sid)) (map fst (subscriptions s1)) (Inr s1))
        (\<lambda>s2.
           and_then
             (fold (\<lambda>sid r. and_then r (close_atomUpdateSubject sid))
                (map fst (atomUpdateSubjects s2)) (Inr s2))
             (\<lambda>s3. Inr (s3\<lparr>trace := trace s3 @ [Emitted ''closed'']\<rparr>))))"

text \<open>
  \<^verbatim>\<open>_onAtomSubmissionStateUpdate\<close>: the \<^verbatim>\<open>switch\<close> has no default branch. A missing
  \<^verbatim>\<open>message\<close> is \<^verbatim>\<open>undefined\<close>, which string concatenation prints as such.
\<close>

definition js_string :: "string option \<Rightarrow> string" where
  "js_string m = (case m of None \<Rightarrow> ''undefined'' | Some t \<Rightarrow> t)"

definition onAtomSubmissionStateUpdate ::
  "AtomSubmissionStateUpdateNotification \<Rightarrow> ('a, 'w) connection \<Rightarrow> ('a, 'w) outcome_state" where
  "onAtomSubmissionStateUpdate n s =
     (let sid = subscriberId n; v = state_value n in
      if v = ''SUBMITTING'' \<or> v = ''SUBMITTED'' then
        on_atomUpdateSubject sid (BehaviorSubject_next v) s
      else if v = ''STORED'' then
        and_then (on_atomUpdateSubject sid (BehaviorSubject_next v) s)
          (on_atomUpdateSubject sid Subject_complete)
      else if v = ''COLLISION'' \<or> v = ''ILLEGAL_STATE'' \<or> v = ''UNSUITABLE_PEER''
              \<or> v = ''VALIDATION_ERROR'' then
        on_atomUpdateSubject sid (Subject_error (ErrorValue (v @ '': '' @ js_string (message n)))) s
      else Inr s)"

text \<open>
  \<^verbatim>\<open>_onAtomReceivedNotification\<close>: the batch is deserialized as a whole, then comes the loop
  that compares identifiers, then one \<^verbatim>\<open>next\<close> per atom with the record
  \<^verbatim>\<open>{action: 'STORE', atom, processedData: {}}\<close>, then one \<^verbatim>\<open>next\<close> on the sync-status stream.

  The loop runs over the indices of the deserialized list and only logs, but it can throw,
  and a throw ends the handler before anything is forwarded. It reads
  \<^verbatim>\<open>notification.atoms[i]\<close>, which is \<^verbatim>\<open>undefined\<close> where the batch is shorter, so that the
  read of its \<^verbatim>\<open>hid\<close> throws. The parameter \<open>hid\<close> is the read \<^verbatim>\<open>serializedAtom.hid\<close>: it throws
  on an element that is \<^verbatim>\<open>null\<close>, and gives \<open>None\<close> where no identifier is supplied. The
  parameter \<open>hidEquals\<close> is the expression
  \<^verbatim>\<open>deserializedAtom.hid.equals(RadixEUID.fromJSON(serializedAtom.hid))\<close>, evaluated only where
  an identifier is supplied; it may throw.
\<close>

fun checkHIDs ::
  "('w \<Rightarrow> js_error + 'w option) \<Rightarrow> ('a \<Rightarrow> 'w \<Rightarrow> js_error + bool) \<Rightarrow> 'w list \<Rightarrow> 'a list
     \<Rightarrow> js_error option" where
  "checkHIDs hid hidEquals ws [] = None"
| "checkHIDs hid hidEquals [] (d # ds) = Some TypeError"
| "checkHIDs hid hidEquals (w # ws) (d # ds) =
     (case hid w of
        Inl e \<Rightarrow> Some e
      | Inr None \<Rightarrow> checkHIDs hid hidEquals ws ds
      | Inr (Some h) \<Rightarrow>
          (case hidEquals d h of
             Inl e \<Rightarrow> Some e
           | Inr matches \<Rightarrow> checkHIDs hid hidEquals ws ds))"

definition onAtomReceivedNotification ::
  "('w list \<Rightarrow> js_error + 'a list) \<Rightarrow> ('w \<Rightarrow> js_error + 'w option) \<Rightarrow> ('a \<Rightarrow> 'w \<Rightarrow> js_error + bool)
     \<Rightarrow> 'w AtomReceivedNotification \<Rightarrow> ('a, 'w) connection \<Rightarrow> ('a, 'w) outcome_state" where
  "onAtomReceivedNotification fromJSON hid hidEquals n s =
     (case fromJSON (atoms n) of
        Inl e \<Rightarrow> Inl (e, s)
      | Inr deserializedAtoms \<Rightarrow>
          (case checkHIDs hid hidEquals (atoms n) deserializedAtoms of
             Some e \<Rightarrow> Inl (e, s)
           | None \<Rightarrow>
               and_then
                 (fold
                    (\<lambda>a r. and_then r
                       (on_subscription (subscriberId n)
                          (Subject_next \<lparr>action = ''STORE'', atom = a, processedData = []\<rparr>)))
                    deserializedAtoms (Inr s))
                 (on_syncedSubscription (subscriberId n) (BehaviorSubject_next (isHead n)))))"

text \<open>
  The callbacks of a call on the transport, run when the call is answered. A throw inside a
  \<^verbatim>\<open>then\<close> callback is handed to the \<^verbatim>\<open>catch\<close> callback that follows it.
\<close>

definition call_resolved ::
  "('w \<Rightarrow> js_error + 'a) \<Rightarrow> nat \<Rightarrow> 'w option \<Rightarrow> ('a, 'w) connection \<Rightarrow> ('a, 'w) outcome_state" where
  "call_resolved fromJSON cid response s =
     (case map_of (calls s) cid of
        None \<Rightarrow> Inr s
      | Some k \<Rightarrow>
          (let s1 = s\<lparr>calls := AList.delete cid (calls s)\<rparr> in
           case k of
             K_ping \<Rightarrow> Inr s1
           | K_subscribe addr sid \<Rightarrow> Inr s1
           | K_unsubscribe addr sid p \<Rightarrow>
               (let s2 = s1\<lparr>addressSubscriptions := AList.delete addr (addressSubscriptions s1)\<rparr> in
                case sid of
                  None \<Rightarrow> Inr (settle p (Rejected TypeError) s2)
                | Some i \<Rightarrow>
                    (case on_subscription i Subject_complete s2 of
                       Inl (e, s3) \<Rightarrow> Inr (settle p (Rejected e) s3)
                     | Inr s3 \<Rightarrow> Inr (settle p (Resolved (PResponse response)) s3)))
           | K_submitAtom sid tid \<Rightarrow>
               (case on_atomUpdateSubject sid (BehaviorSubject_next ''SUBMITTED'') (clear_timer tid s1) of
                  Inl (e, s2) \<Rightarrow> on_atomUpdateSubject sid (Subject_error e) (clear_timer tid s2)
                | Inr s2 \<Rightarrow> Inr s2)
           | K_getAtomById p \<Rightarrow>
               (case response of
                  None \<Rightarrow> Inr (settle p (Rejected TypeError) s1)
                | Some r \<Rightarrow>
                    (case fromJSON r of
                       Inl e \<Rightarrow> Inr (settle p (Rejected e) s1)
                     | Inr a \<Rightarrow> Inr (settle p (Resolved (PAtom a)) s1)))))"

definition call_rejected :: "nat \<Rightarrow> js_error \<Rightarrow> ('a, 'w) connection \<Rightarrow> ('a, 'w) outcome_state" where
  "call_rejected cid e s =
     (case map_of (calls s) cid of
        None \<Rightarrow> Inr s
      | Some k \<Rightarrow>
          (let s1 = s\<lparr>calls := AList.delete cid (calls s)\<rparr> in
           case k of
             K_ping \<Rightarrow> Inr s1
           | K_subscribe addr sid \<Rightarrow> on_subscription sid (Subject_error e) s1
           | K_unsubscribe addr sid p \<Rightarrow> Inr (settle p (Rejected e) s1)
           | K_submitAtom sid tid \<Rightarrow> on_atomUpdateSubject sid (Subject_error e) (clear_timer tid s1)
           | K_getAtomById p \<Rightarrow> Inr (settle p (Rejected e) s1)))"

text \<open>
  A timer that is armed fires; one that was cleared, or has fired as a timeout, is not in the
  table and cannot. The closures are those of \<^verbatim>\<open>openConnection\<close>, \<^verbatim>\<open>submitAtom\<close> and \<^verbatim>\<open>ping\<close>.
\<close>

definition timer_fired :: "nat \<Rightarrow> ('a, 'w) connection \<Rightarrow> ('a, 'w) outcome_state" where
  "timer_fired tid s =
     (case map_of (timers s) tid of
        None \<Rightarrow> Inr s
      | Some t \<Rightarrow>
          (let s1 = (if kind t = Timeout then clear_timer tid s else s) in
           case task t of
             OpenTimeout p \<Rightarrow>
               (case socket s1 of
                  None \<Rightarrow> Inl (TypeError, s1)
                | Some so \<Rightarrow>
                    if \<not> ready so then
                      Inr (settle p (Rejected (ErrorValue ''Timeout''))
                             (s1\<lparr>trace := trace s1 @ [SocketClose, Emitted ''closed'']\<rparr>))
                    else Inr s1)
           | SubmitTimeout sid \<Rightarrow>
               (case socket s1 of
                  None \<Rightarrow> Inl (TypeError, s1)
                | Some so \<Rightarrow>
                    on_atomUpdateSubject sid (Subject_error (ErrorValue ''Socket timeout''))
                      (s1\<lparr>trace := trace s1 @ [SocketClose]\<rparr>))
           | Ping \<Rightarrow> Inr (if isReady s1 then issue Network_getInfo K_ping s1 else s1)))"

text \<open>
  The events of the transport. It sets \<^verbatim>\<open>ready\<close> before it calls the \<^verbatim>\<open>open\<close> handler and
  clears it before it calls the \<^verbatim>\<open>close\<close> handler; a notification reaches its handler once
  the \<^verbatim>\<open>open\<close> handler has registered it. A call of \<^verbatim>\<open>_socket.close()\<close> only asks for the
  close: the \<^verbatim>\<open>close\<close> event is an event of its own, after the code that asked has run.
\<close>

definition socket_open :: "('a, 'w) connection \<Rightarrow> ('a, 'w) connection" where
  "socket_open s =
     (case socket s of
        None \<Rightarrow> s
      | Some so \<Rightarrow>
          (let s1 = s\<lparr>socket := Some (so\<lparr>ready := True\<rparr>)\<rparr>;
               (tid, s2) = set_timer \<lparr>kind = Interval, delay = 10000, task = Ping\<rparr> s1;
               s3 = s2\<lparr>pingInterval := Some tid,
                       trace := trace s2 @ [Emitted ''open''],
                       socket := Some (so\<lparr>ready := True, listening := True\<rparr>)\<rparr>
           in settle (openPromise so) (Resolved (PResponse None)) s3))"

definition socket_error :: "js_error \<Rightarrow> ('a, 'w) connection \<Rightarrow> ('a, 'w) connection" where
  "socket_error e s =
     (case socket s of None \<Rightarrow> s | Some so \<Rightarrow> settle (openPromise so) (Rejected e) s)"

definition socket_close :: "('a, 'w) connection \<Rightarrow> ('a, 'w) outcome_state" where
  "socket_close s =
     (case socket s of
        None \<Rightarrow> Inr s
      | Some so \<Rightarrow> onClosed (s\<lparr>socket := Some (so\<lparr>ready := False\<rparr>)\<rparr>))"

definition socket_onAtomsSubscribeUpdate ::
  "('w list \<Rightarrow> js_error + 'a list) \<Rightarrow> ('w \<Rightarrow> js_error + 'w option) \<Rightarrow> ('a \<Rightarrow> 'w \<Rightarrow> js_error + bool)
     \<Rightarrow> 'w AtomReceivedNotification \<Rightarrow> ('a, 'w) connection \<Rightarrow> ('a, 'w) outcome_state" where
  "socket_onAtomsSubscribeUpdate fromJSON hid hidEquals n s =
     (case socket s of
        None \<Rightarrow> Inr s
      | Some so \<Rightarrow>
          if listening so then onAtomReceivedNotification fromJSON hid hidEquals n s else Inr s)"

definition socket_onAtomSubmissionState ::
  "AtomSubmissionStateUpdateNotification \<Rightarrow> ('a, 'w) connection \<Rightarrow> ('a, 'w) outcome_state" where
  "socket_onAtomSubmissionState n s =
     (case socket s of
        None \<Rightarrow> Inr s
      | Some so \<Rightarrow> if listening so then onAtomSubmissionStateUpdate n s else Inr s)"

text \<open>
  What the holder of a stream can do with it: subscribe an observer, or unsubscribe the
  stream itself.
\<close>

definition observe :: "channel \<Rightarrow> nat \<Rightarrow> ('a, 'w) connection \<Rightarrow> ('a, 'w) outcome_state" where
  "observe ch ob s =
     (case ch of
        Subscription sid \<Rightarrow> on_subscription sid (Subject_subscribe ob) s
      | Synced sid \<Rightarrow> on_syncedSubscription sid (BehaviorSubject_subscribe ob) s
      | AtomState sid \<Rightarrow> on_atomUpdateSubject sid (BehaviorSubject_subscribe ob) s)"

definition dispose :: "channel \<Rightarrow> ('a, 'w) connection \<Rightarrow> ('a, 'w) outcome_state" where
  "dispose ch s =
     (case ch of
        Subscription sid \<Rightarrow> on_subscription sid Subject_unsubscribe s
      | Synced sid \<Rightarrow> on_syncedSubscription sid Subject_unsubscribe s
      | AtomState sid \<Rightarrow> on_atomUpdateSubject sid Subject_unsubscribe s)"

definition received :: "channel \<Rightarrow> nat \<Rightarrow> ('a, 'w) effect list \<Rightarrow> 'a payload notification list" where
  "received ch ob tr =
     concat (map (\<lambda>e. case e of Notified c b n \<Rightarrow> (if c = ch \<and> b = ob then [n] else []) | _ \<Rightarrow> []) tr)"

section \<open>Runs\<close>

text \<open>
  The life of one submission as its caller sees it: \<^verbatim>\<open>submitAtom\<close> returns the stream, the
  caller subscribes the observer \<open>ob\<close> at once, and then either the call is accepted and the
  node reports the state \<open>v\<close> with the message \<open>m\<close>, or nothing is heard and the timer that
  \<^verbatim>\<open>submitAtom\<close> armed fires. The timer takes the next free number and the call the one after.
\<close>

definition submission_run ::
  "('a \<Rightarrow> 'w) \<Rightarrow> ('w \<Rightarrow> js_error + 'a) \<Rightarrow> 'a \<Rightarrow> nat \<Rightarrow> 'w option \<Rightarrow> string \<Rightarrow> string option
     \<Rightarrow> ('a, 'w) connection \<Rightarrow> ('a, 'w) outcome_state" where
  "submission_run toJSON fromJSON a ob response v m s =
     (case submitAtom toJSON a s of
        Inl e \<Rightarrow> Inl e
      | Inr (sid, s1) \<Rightarrow>
          and_then (observe (AtomState sid) ob s1)
            (\<lambda>s2. and_then (call_resolved fromJSON (Suc (nextId s)) response s2)
               (onAtomSubmissionStateUpdate \<lparr>subscriberId = sid, state_value = v, message = m\<rparr>)))"

definition submission_timeout_run ::
  "('a \<Rightarrow> 'w) \<Rightarrow> 'a \<Rightarrow> nat \<Rightarrow> ('a, 'w) connection \<Rightarrow> ('a, 'w) outcome_state" where
  "submission_timeout_run toJSON a ob s =
     (case submitAtom toJSON a s of
        Inl e \<Rightarrow> Inl e
      | Inr (sid, s1) \<Rightarrow> and_then (observe (AtomState sid) ob s1) (timer_fired (nextId s)))"

definition final_trace :: "('a, 'w) outcome_state \<Rightarrow> ('a, 'w) effect list" where
  "final_trace r = (case r of Inl (e, s) \<Rightarrow> trace s | Inr s \<Rightarrow> trace s)"

definition state_of :: "('a, 'w) outcome_state \<Rightarrow> ('a, 'w) connection" where
  "state_of r = (case r of Inl (e, s) \<Rightarrow> s | Inr s \<Rightarrow> s)"

definition subscribed :: "string \<Rightarrow> ('a, 'w) connection \<Rightarrow> ('a, 'w) outcome_state" where
  "subscribed addr s = (case subscribe addr s of Inl e \<Rightarrow> Inl e | Inr (sid, s') \<Rightarrow> Inr s')"

text \<open>
  Two connections to try things on, with atoms and wire values both numbers: one that has
  been opened, and one that has then subscribed to two addresses, with an observer on each
  delivery stream and one on the first sync-status stream.
\<close>

definition example_open :: "(nat, nat) connection" where
  "example_open = socket_open (snd (openConnection ''ws://localhost:8080/rpc'' new_connection))"

definition example_two :: "(nat, nat) connection" where
  "example_two =
     state_of
       (and_then (subscribed ''JHB1'' example_open)
          (\<lambda>s. and_then (observe (Subscription 2) 1 s)
             (\<lambda>s. and_then (observe (Synced 2) 1 s)
                (\<lambda>s. and_then (subscribed ''JHB2'' s) (observe (Subscription 3) 2)))))"

section \<open>Facts shared by the proofs\<close>

lemmas stream_defs =
  Subject_next_def Subject_error_def Subject_complete_def Subject_subscribe_def
  Subject_unsubscribe_def BehaviorSubject_next_def BehaviorSubject_subscribe_def
  new_BehaviorSubject_def new_Subject_def deliver_def notified_def

lemmas submission_defs =
  submitAtom_def getSubscriberId_def set_timer_def issue_def observe_def
  on_atomUpdateSubject_def and_then_def call_resolved_def clear_timer_def
  onAtomSubmissionStateUpdate_def

lemma example_open_eq:
  "example_open =
     \<lparr>socket = Some \<lparr>ready = True, listening = True, openPromise = 0\<rparr>,
      pingInterval = Some 2, subscriptions = [], atomUpdateSubjects = [],
      addressSubscriptions = [], syncedSubscriptions = [],
      lastSubscriberId = 1, address = ''ws://localhost:8080/rpc'',
      timers =
        [(1, \<lparr>kind = Timeout, delay = 5000, task = OpenTimeout 0\<rparr>),
         (2, \<lparr>kind = Interval, delay = 10000, task = Ping\<rparr>)],
      calls = [], promises = [(0, Single (Resolved (PResponse None)))],
      nextId = 3, trace = [Emitted ''open'']\<rparr>"
  by (simp add: example_open_def socket_open_def openConnection_def new_connection_def
      new_promise_def settle_def set_timer_def)

lemma example_two_eq:
  "example_two =
     \<lparr>socket = Some \<lparr>ready = True, listening = True, openPromise = 0\<rparr>,
      pingInterval = Some 2,
      subscriptions =
        [(2, \<lparr>closed = False, isStopped = False, hasError = False,
               thrownError = Null, observers = [1]\<rparr>),
         (3, \<lparr>closed = False, isStopped = False, hasError = False,
               thrownError = Null, observers = [2]\<rparr>)],
      atomUpdateSubjects = [],
      addressSubscriptions = [(''JHB1'', 2), (''JHB2'', 3)],
      syncedSubscriptions =
        [(2, \<lparr>closed = False, isStopped = False, hasError = False,
               thrownError = Null, observers = [1], current = False\<rparr>),
         (3, \<lparr>closed = False, isStopped = False, hasError = False,
               thrownError = Null, observers = [], current = False\<rparr>)],
      lastSubscriberId = 3, address = ''ws://localhost:8080/rpc'',
      timers =
        [(1, \<lparr>kind = Timeout, delay = 5000, task = OpenTimeout 0\<rparr>),
         (2, \<lparr>kind = Interval, delay = 10000, task = Ping\<rparr>)],
      calls = [(3, K_subscribe ''JHB1'' 2), (4, K_subscribe ''JHB2'' 3)],
      promises = [(0, Single (Resolved (PResponse None)))], nextId = 5,
      trace =
        [Emitted ''open'', Called 3 (Atoms_subscribe 2 ''JHB1''),
         Notified (Synced 2) 1 (Next (SyncValue False)),
         Called 4 (Atoms_subscribe 3 ''JHB2'')]\<rparr>"
  by (simp add: example_two_def example_open_eq state_of_def subscribed_def subscribe_def
      getSubscriberId_def issue_def observe_def on_subscription_def on_syncedSubscription_def
      and_then_def stream_defs Let_def)

text \<open>Settling a promise touches the table of promises and nothing else.\<close>

lemma settle_fields [simp]:
  "socket (settle p out s) = socket s"
  "pingInterval (settle p out s) = pingInterval s"
  "subscriptions (settle p out s) = subscriptions s"
  "atomUpdateSubjects (settle p out s) = atomUpdateSubjects s"
  "addressSubscriptions (settle p out s) = addressSubscriptions s"
  "syncedSubscriptions (settle p out s) = syncedSubscriptions s"
  "lastSubscriberId (settle p out s) = lastSubscriberId s"
  "address (settle p out s) = address s"
  "timers (settle p out s) = timers s"
  "calls (settle p out s) = calls s"
  "nextId (settle p out s) = nextId s"
  "trace (settle p out s) = trace s"
  by (simp_all add: settle_def Let_def)

lemma fst_note_rejection [simp]: "fst (note_rejection p e qp) = fst qp"
  by (simp add: note_rejection_def split: prod.splits promise.splits option.splits)

lemma map_of_note_rejection:
  "map_of (map (note_rejection p e) ps) q
     = map_option (\<lambda>pr. snd (note_rejection p e (q, pr))) (map_of ps q)"
proof (induction ps)
  case Nil
  then show ?case by simp
next
  case (Cons x ps)
  obtain k pr where x: "x = (k, pr)" by (cases x)
  obtain k' pr' where n: "note_rejection p e (k, pr) = (k', pr')"
    by (cases "note_rejection p e (k, pr)")
  have "k' = k" using fst_note_rejection [of p e "(k, pr)"] n by simp
  with Cons x n show ?case by auto
qed

lemma settle_promise:
  assumes "map_of (promises s) p = Some (Single Pending)"
  shows "map_of (promises (settle p out s)) p = Some (Single out)"
  using assms
  by (simp add: settle_def Let_def update_conv' map_of_note_rejection note_rejection_def
      split: outcome.splits)

section \<open>The submission state stream\<close>

text \<open>
  C1, as stated: when the call is accepted and the node then reports \<^verbatim>\<open>STORED\<close>, a subscriber
  of the returned stream observes exactly \<^verbatim>\<open>SUBMITTED\<close> and \<^verbatim>\<open>STORED\<close> and then the completion.
  The stream is a \<^verbatim>\<open>BehaviorSubject\<close> created with the value \<^verbatim>\<open>'CREATED'\<close>, so the subscriber
  that is attached when \<^verbatim>\<open>submitAtom\<close> returns is handed \<^verbatim>\<open>CREATED\<close> first: what it observes is
  not the list of the claim.
\<close>

theorem submitAtom_stored_observes_CREATED_first:
  "received (AtomState 2) 1
     (final_trace (submission_run id Inr (7::nat) 1 None ''STORED'' None example_open))
   \<noteq> [Next (StateValue ''SUBMITTED''), Next (StateValue ''STORED''), Complete]"
  by (simp add: example_open_eq submission_run_def submission_defs stream_defs update_conv'
      delete_conv' Let_def final_trace_def received_def)

text \<open>
  C1, amended: on a connection that has a transport, when the call is accepted and the node
  then reports \<^verbatim>\<open>STORED\<close>, the subscriber attached when \<^verbatim>\<open>submitAtom\<close> returns observes
  \<^verbatim>\<open>CREATED\<close>, \<^verbatim>\<open>SUBMITTED\<close>, \<^verbatim>\<open>STORED\<close> and the completion, in that order, and nothing else; the
  only other effect of the run is the call on the transport.
\<close>

theorem submitAtom_stored_stream:
  assumes "socket s = Some so"
  shows "\<exists>s'. submission_run toJSON fromJSON a ob response ''STORED'' m s = Inr s' \<and>
     trace s' = trace s @
       [Called (Suc (nextId s))
          (Universe_submitAtomAndSubscribe (Suc (lastSubscriberId s)) (toJSON a)),
        Notified (AtomState (Suc (lastSubscriberId s))) ob (Next (StateValue ''CREATED'')),
        Notified (AtomState (Suc (lastSubscriberId s))) ob (Next (StateValue ''SUBMITTED'')),
        Notified (AtomState (Suc (lastSubscriberId s))) ob (Next (StateValue ''STORED'')),
        Notified (AtomState (Suc (lastSubscriberId s))) ob Complete]"
  using assms
  by (simp add: submission_run_def submission_defs stream_defs update_conv' delete_conv' Let_def)

theorem submitAtom_stored_stream_witness:
  "socket example_open = Some \<lparr>ready = True, listening = True, openPromise = 0\<rparr> \<and>
   (\<exists>s'. submission_run id Inr (7::nat) 1 None ''STORED'' None example_open = Inr s' \<and>
      trace s' =
        [Emitted ''open'', Called 4 (Universe_submitAtomAndSubscribe 2 7),
         Notified (AtomState 2) 1 (Next (StateValue ''CREATED'')),
         Notified (AtomState 2) 1 (Next (StateValue ''SUBMITTED'')),
         Notified (AtomState 2) 1 (Next (StateValue ''STORED'')),
         Notified (AtomState 2) 1 Complete])"
  using submitAtom_stored_stream
    [of example_open "\<lparr>ready = True, listening = True, openPromise = 0\<rparr>" id Inr 7 1 None None]
  by (simp add: example_open_eq numeral_2_eq_2)



text \<open>
  C10: a state update whose value is none of the seven the \<^verbatim>\<open>switch\<close> names changes nothing:
  the handler returns the state it was given, so the stream of the submission is as it was,
  no observer is called, and nothing is thrown, also when no stream is registered under the
  identifier of the notification.
\<close>

theorem unknown_state_value_ignored:
  assumes "state_value n \<notin> {''SUBMITTING'', ''SUBMITTED'', ''STORED'', ''COLLISION'',
     ''ILLEGAL_STATE'', ''UNSUITABLE_PEER'', ''VALIDATION_ERROR''}"
  shows "onAtomSubmissionStateUpdate n s = Inr s"
  using assms by (simp add: onAtomSubmissionStateUpdate_def)

theorem unknown_state_value_ignored_witness:
  "''QUEUED'' \<notin> {''SUBMITTING'', ''SUBMITTED'', ''STORED'', ''COLLISION'',
     ''ILLEGAL_STATE'', ''UNSUITABLE_PEER'', ''VALIDATION_ERROR''} \<and>
   onAtomSubmissionStateUpdate \<lparr>subscriberId = 2, state_value = ''QUEUED'', message = None\<rparr>
     example_open = Inr example_open"
  using unknown_state_value_ignored
    [of "\<lparr>subscriberId = 2, state_value = ''QUEUED'', message = None\<rparr>" example_open]
  by simp

section \<open>The timers\<close>

text \<open>
  C4: \<^verbatim>\<open>submitAtom\<close> arms a single-shot timer of 5000 ms for the submission. When that timer
  fires, with the call not yet answered, the transport is closed and the stream then ends with
  the error \<^verbatim>\<open>Socket timeout\<close>: the subscriber attached at the return observes \<^verbatim>\<open>CREATED\<close> and
  then this error. The five seconds are the delay of the timer; that it is still armed is what
  no acknowledgment within that time comes to, since only the answer to the call clears it.
\<close>

theorem submitAtom_timeout:
  assumes "socket s = Some so"
  shows "\<exists>sid s1 s'. submitAtom toJSON a s = Inr (sid, s1) \<and>
     map_of (timers s1) (nextId s)
       = Some \<lparr>kind = Timeout, delay = 5000, task = SubmitTimeout sid\<rparr> \<and>
     submission_timeout_run toJSON a ob s = Inr s' \<and>
     trace s' = trace s @
       [Called (Suc (nextId s)) (Universe_submitAtomAndSubscribe sid (toJSON a)),
        Notified (AtomState sid) ob (Next (StateValue ''CREATED'')),
        SocketClose,
        Notified (AtomState sid) ob (Error (ErrorValue ''Socket timeout''))] \<and>
     map_option thrownError (map_of (atomUpdateSubjects s') sid)
       = Some (ErrorValue ''Socket timeout'') \<and>
     map_of (timers s') (nextId s) = None"
  using assms
  by (simp add: submission_timeout_run_def timer_fired_def submission_defs stream_defs
      update_conv' delete_conv' Let_def)

theorem submitAtom_timeout_witness:
  "socket example_open = Some \<lparr>ready = True, listening = True, openPromise = 0\<rparr> \<and>
   (\<exists>sid s1 s'. submitAtom id (7::nat) example_open = Inr (sid, s1) \<and>
      map_of (timers s1) 3 = Some \<lparr>kind = Timeout, delay = 5000, task = SubmitTimeout sid\<rparr> \<and>
      submission_timeout_run id 7 1 example_open = Inr s' \<and>
      trace s' =
        [Emitted ''open'', Called 4 (Universe_submitAtomAndSubscribe sid 7),
         Notified (AtomState sid) 1 (Next (StateValue ''CREATED'')),
         SocketClose,
         Notified (AtomState sid) 1 (Error (ErrorValue ''Socket timeout''))] \<and>
      map_option thrownError (map_of (atomUpdateSubjects s') sid)
        = Some (ErrorValue ''Socket timeout'') \<and>
      map_of (timers s') 3 = None)"
  using submitAtom_timeout
    [of example_open "\<lparr>ready = True, listening = True, openPromise = 0\<rparr>" id 7 1]
  by (simp add: example_open_eq)

text \<open>
  C7, as stated: both timeout timers are cancelled when the transition they guard succeeds.
  \<^verbatim>\<open>openConnection\<close> does not keep the number of its timer and never clears it: on the opened
  connection, whose promise is resolved, the timer is still armed, and it fires, which uses
  it up.
\<close>

theorem open_timer_still_armed_after_open:
  "outcome_of (promises example_open) 0 = Some (Resolved (PResponse None)) \<and>
   map_of (timers example_open) 1 = Some \<lparr>kind = Timeout, delay = 5000, task = OpenTimeout 0\<rparr> \<and>
   timer_fired 1 example_open = Inr (clear_timer 1 example_open) \<and>
   clear_timer 1 example_open \<noteq> example_open"
  by (simp add: example_open_eq outcome_of_def timer_fired_def clear_timer_def)

text \<open>
  C7, amended: the timer of a submission is cleared when the call is accepted, so that it
  cannot fire afterwards. The timer of \<^verbatim>\<open>openConnection\<close> is never cleared: it stays armed
  after the transport has opened, and when it fires while the transport is ready its closure
  does nothing (the timer is spent, and no other part of the state changes).
\<close>

theorem timeout_timers:
  assumes "socket s = Some so"
  shows "(\<exists>sid s1 s2. submitAtom toJSON a s = Inr (sid, s1) \<and>
       map_of (timers s1) (nextId s)
         = Some \<lparr>kind = Timeout, delay = 5000, task = SubmitTimeout sid\<rparr> \<and>
       call_resolved fromJSON (Suc (nextId s)) response s1 = Inr s2 \<and>
       map_of (timers s2) (nextId s) = None \<and>
       timer_fired (nextId s) s2 = Inr s2) \<and>
     (\<exists>p s1 s2. openConnection addr s = (p, s1) \<and> socket_open s1 = s2 \<and>
       map_of (timers s2) (Suc (nextId s))
         = Some \<lparr>kind = Timeout, delay = 5000, task = OpenTimeout p\<rparr> \<and>
       timer_fired (Suc (nextId s)) s2 = Inr (clear_timer (Suc (nextId s)) s2))"
proof (intro conjI)
  show "\<exists>sid s1 s2. submitAtom toJSON a s = Inr (sid, s1) \<and>
       map_of (timers s1) (nextId s)
         = Some \<lparr>kind = Timeout, delay = 5000, task = SubmitTimeout sid\<rparr> \<and>
       call_resolved fromJSON (Suc (nextId s)) response s1 = Inr s2 \<and>
       map_of (timers s2) (nextId s) = None \<and>
       timer_fired (nextId s) s2 = Inr s2"
    using assms
    by (simp add: submission_defs stream_defs timer_fired_def update_conv' delete_conv' Let_def)
  show "\<exists>p s1 s2. openConnection addr s = (p, s1) \<and> socket_open s1 = s2 \<and>
       map_of (timers s2) (Suc (nextId s))
         = Some \<lparr>kind = Timeout, delay = 5000, task = OpenTimeout p\<rparr> \<and>
       timer_fired (Suc (nextId s)) s2 = Inr (clear_timer (Suc (nextId s)) s2)"
    by (simp add: openConnection_def socket_open_def new_promise_def set_timer_def
        timer_fired_def clear_timer_def update_conv' delete_conv' Let_def)
qed

theorem timeout_timers_witness:
  "socket example_open = Some \<lparr>ready = True, listening = True, openPromise = 0\<rparr> \<and>
   (\<exists>sid s1 s2. submitAtom id (7::nat) example_open = Inr (sid, s1) \<and>
      map_of (timers s1) 3 = Some \<lparr>kind = Timeout, delay = 5000, task = SubmitTimeout sid\<rparr> \<and>
      call_resolved Inr 4 None s1 = Inr s2 \<and>
      map_of (timers s2) 3 = None \<and>
      timer_fired 3 s2 = Inr s2) \<and>
   (\<exists>p s1 s2. openConnection ''ws://localhost:8080/rpc'' example_open = (p, s1) \<and>
      socket_open s1 = s2 \<and>
      map_of (timers s2) 4 = Some \<lparr>kind = Timeout, delay = 5000, task = OpenTimeout p\<rparr> \<and>
      timer_fired 4 s2 = Inr (clear_timer 4 s2))"
  using timeout_timers
    [of example_open "\<lparr>ready = True, listening = True, openPromise = 0\<rparr>" id 7 Inr None
        "''ws://localhost:8080/rpc''"]
  by (simp add: example_open_eq)

section \<open>Subscriptions\<close>





text \<open>
  C6, as stated: a successful \<^verbatim>\<open>unsubscribe\<close> removes the bookkeeping for the address. The
  source deletes the entry of \<^verbatim>\<open>_addressSubscriptions\<close> and nothing else. Here the address
  \<^verbatim>\<open>JHB1\<close>, with the subscriber identifier 2, is unsubscribed and the call is answered: the
  promise is resolved and the address is gone, but both tables keyed by subscriber still hold
  the identifier 2, the sync-status stream is as live as before, and a batch that arrives for
  2 afterwards still reaches the observer of that stream.
\<close>

theorem unsubscribe_keeps_the_subscriber_entries:
  "map_of
     (promises (state_of (call_resolved Inr 6 (Some 0) (snd (unsubscribe ''JHB1'' example_two)))))
     (fst (unsubscribe ''JHB1'' example_two)) = Some (Single (Resolved (PResponse (Some 0)))) \<and>
   map_of
     (addressSubscriptions
        (state_of (call_resolved Inr 6 (Some 0) (snd (unsubscribe ''JHB1'' example_two)))))
     ''JHB1'' = None \<and>
   map fst
     (subscriptions
        (state_of (call_resolved Inr 6 (Some 0) (snd (unsubscribe ''JHB1'' example_two)))))
     = [2, 3] \<and>
   map_of
     (syncedSubscriptions
        (state_of (call_resolved Inr 6 (Some 0) (snd (unsubscribe ''JHB1'' example_two)))))
     2 = Some \<lparr>closed = False, isStopped = False, hasError = False, thrownError = Null,
               observers = [1], current = False\<rparr> \<and>
   onAtomReceivedNotification (\<lambda>ws. Inr (map Suc ws)) (\<lambda>w. Inr None) (\<lambda>a i. Inr (a = i))
     \<lparr>subscriberId = 2, atoms = [10], isHead = True\<rparr>
     (state_of (call_resolved Inr 6 (Some 0) (snd (unsubscribe ''JHB1'' example_two))))
   = Inr (state_of (call_resolved Inr 6 (Some 0) (snd (unsubscribe ''JHB1'' example_two)))
       \<lparr>syncedSubscriptions :=
          [(2, \<lparr>closed = False, isStopped = False, hasError = False, thrownError = Null,
                 observers = [1], current = True\<rparr>),
           (3, \<lparr>closed = False, isStopped = False, hasError = False, thrownError = Null,
                 observers = [], current = False\<rparr>)],
        trace :=
          [Emitted ''open'', Called 3 (Atoms_subscribe 2 ''JHB1''),
           Notified (Synced 2) 1 (Next (SyncValue False)),
           Called 4 (Atoms_subscribe 3 ''JHB2''),
           Called 6 (Atoms_cancel (Some 2)),
           Notified (Subscription 2) 1 Complete,
           Notified (Synced 2) 1 (Next (SyncValue True))]\<rparr>)"
  by (simp add: example_two_eq unsubscribe_def new_promise_def issue_def call_resolved_def
      on_subscription_def on_syncedSubscription_def onAtomReceivedNotification_def and_then_def
      stream_defs settle_def state_of_def Let_def)

text \<open>
  C6, amended: for an address with a subscription, on a connection that has a transport,
  \<^verbatim>\<open>unsubscribe\<close> issues one \<^verbatim>\<open>Atoms.cancel\<close> call with the subscriber identifier of the
  address and changes no table. When the call is rejected, the promise is rejected with the
  same error, every table of the connection is as it was, no observer is called, and the
  address still maps to its identifier. When the call is answered, and the holder of the
  delivery stream has not unsubscribed it, the entry of the address is deleted from
  \<^verbatim>\<open>_addressSubscriptions\<close>, the delivery stream is completed (its observers are told so) and
  the promise is resolved with the response; the completed delivery stream stays registered
  under the subscriber identifier, and the table of the sync-status streams is as it was.
\<close>

theorem unsubscribe_cancels_then_completes_or_propagates:
  assumes "socket s = Some so"
    and "map_of (addressSubscriptions s) addr = Some sid"
  shows "\<exists>p s1. unsubscribe addr s = (p, s1) \<and>
     trace s1 = trace s @ [Called (Suc (nextId s)) (Atoms_cancel (Some sid))] \<and>
     addressSubscriptions s1 = addressSubscriptions s \<and>
     subscriptions s1 = subscriptions s \<and>
     syncedSubscriptions s1 = syncedSubscriptions s \<and>
     (\<exists>s2. call_rejected (Suc (nextId s)) e s1 = Inr s2 \<and>
        map_of (promises s2) p = Some (Single (Rejected e)) \<and>
        addressSubscriptions s2 = addressSubscriptions s \<and>
        subscriptions s2 = subscriptions s \<and>
        syncedSubscriptions s2 = syncedSubscriptions s \<and>
        atomUpdateSubjects s2 = atomUpdateSubjects s \<and>
        lastSubscriberId s2 = lastSubscriberId s \<and>
        trace s2 = trace s1) \<and>
     (\<forall>sub. map_of (subscriptions s) sid = Some sub \<longrightarrow> \<not> closed sub \<longrightarrow>
        (\<exists>s3. call_resolved fromJSON (Suc (nextId s)) response s1 = Inr s3 \<and>
           map_of (promises s3) p = Some (Single (Resolved (PResponse response))) \<and>
           addressSubscriptions s3 = AList.delete addr (addressSubscriptions s) \<and>
           map_of (addressSubscriptions s3) addr = None \<and>
           subscriptions s3
             = AList.update sid (sub\<lparr>isStopped := True, observers := []\<rparr>) (subscriptions s) \<and>
           syncedSubscriptions s3 = syncedSubscriptions s \<and>
           atomUpdateSubjects s3 = atomUpdateSubjects s \<and>
           trace s3
             = trace s1 @ map (\<lambda>ob. Notified (Subscription sid) ob Complete) (observers sub)))"
  using assms
  by (simp add: unsubscribe_def new_promise_def issue_def call_rejected_def call_resolved_def
      on_subscription_def Subject_complete_def deliver_def notified_def
      outcome_of_def settle_promise update_conv' delete_conv' Let_def comp_def)

theorem unsubscribe_cancels_then_completes_or_propagates_witness:
  "socket example_two = Some \<lparr>ready = True, listening = True, openPromise = 0\<rparr> \<and>
   map_of (addressSubscriptions example_two) ''JHB1'' = Some 2 \<and>
   map_of (subscriptions example_two) 2
     = Some \<lparr>closed = False, isStopped = False, hasError = False, thrownError = Null,
             observers = [1]\<rparr> \<and>
   (\<exists>p s1. unsubscribe ''JHB1'' example_two = (p, s1) \<and>
      trace s1 = trace example_two @ [Called 6 (Atoms_cancel (Some 2))] \<and>
      (\<exists>s2. call_rejected 6 (ErrorValue ''refused'') s1 = Inr s2 \<and>
         map_of (promises s2) p = Some (Single (Rejected (ErrorValue ''refused''))) \<and>
         addressSubscriptions s2 = [(''JHB1'', 2), (''JHB2'', 3)] \<and>
         subscriptions s2 = subscriptions example_two \<and>
         syncedSubscriptions s2 = syncedSubscriptions example_two \<and>
         trace s2 = trace s1) \<and>
      (\<exists>s3. call_resolved Inr 6 (Some 0) s1 = Inr s3 \<and>
         map_of (promises s3) p = Some (Single (Resolved (PResponse (Some 0)))) \<and>
         addressSubscriptions s3 = [(''JHB2'', 3)] \<and>
         syncedSubscriptions s3 = syncedSubscriptions example_two \<and>
         trace s3 = trace s1 @ [Notified (Subscription 2) 1 Complete]))"
proof -
  let ?so = "\<lparr>ready = True, listening = True, openPromise = 0\<rparr>"
  let ?sub = "\<lparr>closed = False, isStopped = False, hasError = False, thrownError = Null,
               observers = [1]\<rparr> :: nat RadixAtomUpdate Subject"
  have a: "socket example_two = Some ?so"
    and b: "map_of (addressSubscriptions example_two) ''JHB1'' = Some 2"
    and c: "map_of (subscriptions example_two) 2 = Some ?sub"
    and n: "nextId example_two = 5"
    and t: "addressSubscriptions example_two = [(''JHB1'', 2), (''JHB2'', 3)]"
    by (simp_all add: example_two_eq)
  have d: "\<not> closed ?sub"
    by simp
  have six: "Suc (nextId example_two) = 6"
    unfolding n by simp
  from unsubscribe_cancels_then_completes_or_propagates
         [OF a b, of "ErrorValue ''refused''" Inr "Some 0"]
  obtain p s1 where
    r: "unsubscribe ''JHB1'' example_two = (p, s1)"
      "trace s1 = trace example_two @ [Called 6 (Atoms_cancel (Some 2))]"
    and ko: "\<exists>s2. call_rejected 6 (ErrorValue ''refused'') s1 = Inr s2 \<and>
        map_of (promises s2) p = Some (Single (Rejected (ErrorValue ''refused''))) \<and>
        addressSubscriptions s2 = addressSubscriptions example_two \<and>
        subscriptions s2 = subscriptions example_two \<and>
        syncedSubscriptions s2 = syncedSubscriptions example_two \<and>
        atomUpdateSubjects s2 = atomUpdateSubjects example_two \<and>
        lastSubscriberId s2 = lastSubscriberId example_two \<and>
        trace s2 = trace s1"
    and ok: "\<forall>sub. map_of (subscriptions example_two) 2 = Some sub \<longrightarrow> \<not> closed sub \<longrightarrow>
        (\<exists>s3. call_resolved Inr 6 (Some 0) s1 = Inr s3 \<and>
           map_of (promises s3) p = Some (Single (Resolved (PResponse (Some 0)))) \<and>
           addressSubscriptions s3 = AList.delete ''JHB1'' (addressSubscriptions example_two) \<and>
           map_of (addressSubscriptions s3) ''JHB1'' = None \<and>
           subscriptions s3
             = AList.update 2 (sub\<lparr>isStopped := True, observers := []\<rparr>) (subscriptions example_two) \<and>
           syncedSubscriptions s3 = syncedSubscriptions example_two \<and>
           atomUpdateSubjects s3 = atomUpdateSubjects example_two \<and>
           trace s3 = trace s1 @ map (\<lambda>ob. Notified (Subscription 2) ob Complete) (observers sub))"
    unfolding six by blast
  from ko obtain s2 where
    s2: "call_rejected 6 (ErrorValue ''refused'') s1 = Inr s2"
      "map_of (promises s2) p = Some (Single (Rejected (ErrorValue ''refused'')))"
      "addressSubscriptions s2 = [(''JHB1'', 2), (''JHB2'', 3)]"
      "subscriptions s2 = subscriptions example_two"
      "syncedSubscriptions s2 = syncedSubscriptions example_two"
      "trace s2 = trace s1"
    unfolding t by blast
  from ok c d obtain s3 where
    s3: "call_resolved Inr 6 (Some 0) s1 = Inr s3"
      "map_of (promises s3) p = Some (Single (Resolved (PResponse (Some 0))))"
      "addressSubscriptions s3 = AList.delete ''JHB1'' (addressSubscriptions example_two)"
      "syncedSubscriptions s3 = syncedSubscriptions example_two"
      "trace s3 = trace s1 @ map (\<lambda>ob. Notified (Subscription 2) ob Complete) (observers ?sub)"
    by blast
  have s3': "addressSubscriptions s3 = [(''JHB2'', 3)]"
    "trace s3 = trace s1 @ [Notified (Subscription 2) 1 Complete]"
    using s3(3,5) unfolding t by simp_all
  from a b c r s2 s3(1,2,4) s3' show ?thesis
    by blast
qed

section \<open>Unsubscribing from every address\<close>











section \<open>Closing\<close>

text \<open>
  C3: on a close of the transport every stream is to be ended with the error once, and a stream
  that has already ended is to be left alone, so that no stream both completes and fails.
  \<^verbatim>\<open>_onClosed\<close> tests the flag \<^verbatim>\<open>closed\<close>, which only \<^verbatim>\<open>unsubscribe()\<close> sets; \<^verbatim>\<open>complete()\<close> and
  \<^verbatim>\<open>error()\<close> set \<^verbatim>\<open>isStopped\<close>. Here a submission is accepted and stored, so that its stream
  completes and its subscriber is told so; then the transport closes. The handler calls
  \<^verbatim>\<open>error('Socket closed')\<close> on the completed stream: the stream now holds that error, and a
  subscriber that arrives afterwards is handed the error by the stream that had completed.
\<close>

theorem onClosed_errors_a_completed_stream:
  "\<exists>s'. and_then (submission_run id Inr (7::nat) 1 None ''STORED'' None example_open)
          (\<lambda>s. and_then (socket_close s) (observe (AtomState 2) 2)) = Inr s' \<and>
     received (AtomState 2) 1 (trace s')
       = [Next (StateValue ''CREATED''), Next (StateValue ''SUBMITTED''),
          Next (StateValue ''STORED''), Complete] \<and>
     received (AtomState 2) 2 (trace s') = [Error (ErrorValue ''Socket closed'')] \<and>
     map_of (atomUpdateSubjects s') 2
       = Some \<lparr>closed = False, isStopped = True, hasError = True,
               thrownError = ErrorValue ''Socket closed'', observers = [],
               current = ''STORED''\<rparr>"
  by (simp add: example_open_eq submission_run_def submission_defs stream_defs update_conv'
      delete_conv' Let_def received_def socket_close_def onClosed_def clearInterval_def
      close_subscription_def close_atomUpdateSubject_def)

section \<open>Looking an atom up\<close>

text \<open>
  What \<^verbatim>\<open>getAtomById\<close> does on a connection that has a transport: it issues one
  \<^verbatim>\<open>Atoms.getAtomInfo\<close> call with the identifier and returns a pending promise. When the
  call is answered, the promise is resolved with what the serializer makes of the \<^verbatim>\<open>result\<close>
  of the response, or rejected with what the serializer throws; when there is no response
  object it is rejected with a \<^verbatim>\<open>TypeError\<close>; when the call is rejected it is rejected with
  the same error.
\<close>

lemma getAtomById_outcomes:
  assumes "socket s = Some so"
  shows "\<exists>p s1. getAtomById ident s = (p, s1) \<and>
     trace s1 = trace s @ [Called (Suc (nextId s)) (Atoms_getAtomInfo ident)] \<and>
     outcome_of (promises s1) p = Some Pending \<and>
     outcome_of (promises (state_of (call_resolved fromJSON (Suc (nextId s)) (Some r) s1))) p
       = Some (case fromJSON r of Inl e \<Rightarrow> Rejected e | Inr a \<Rightarrow> Resolved (PAtom a)) \<and>
     outcome_of (promises (state_of (call_resolved fromJSON (Suc (nextId s)) None s1))) p
       = Some (Rejected TypeError) \<and>
     outcome_of (promises (state_of (call_rejected (Suc (nextId s)) e s1))) p = Some (Rejected e)"
  using assms
  by (simp add: getAtomById_def new_promise_def issue_def call_resolved_def call_rejected_def
      state_of_def outcome_of_def settle_promise update_conv' delete_conv' Let_def
      split: sum.splits)

end
